theory Spec2Isabelle
  imports Main "HOL-Library.Sublist"
begin

section \<open>The Zeppelin notebook client (zeppelin.py)\<close>

text \<open>
  The module defines one class, \<open>ZeppelinClient\<close>, whose methods build a URI, send one
  request through a \<open>requests.Session\<close> and, for some of them, read the field \<open>body\<close> of
  the JSON answer. The embedding follows the module method by method. What Python does
  by raising is a value here: every method returns \<open>Inl\<close> of the exception or \<open>Inr\<close> of its
  result, together with the client object and the world it leaves behind.
\<close>

subsection \<open>Exceptions and values\<close>

text \<open>
  The exceptions the module can run into. \<open>Exception msg\<close> is the one \<open>_login\<close> raises
  itself; \<open>TransportError\<close> stands for whatever the requests library raises when no
  response arrives (connection refused, timeout). \<open>UnmodelledField\<close> marks a replacement
  field of \<open>str.format\<close> that lies outside the fragment modelled below.
\<close>

datatype error =
    NameError string
  | KeyError string
  | IndexError
  | ValueError
  | TypeError
  | NotImplementedError
  | Exception string
  | TransportError string
  | UnmodelledField string

text \<open>
  A parsed JSON document, as \<open>Response.json()\<close> hands it back (a dict for an object, a
  list for an array). \<open>JNull\<close> is Python's \<open>None\<close>, which is also what a method without
  \<open>return\<close> yields. The client passes documents on and never looks into a number.
\<close>

datatype json =
    JNull
  | JBool bool
  | JNum int
  | JStr string
  | JArr "json list"
  | JObj "(string \<times> json) list"

text \<open>
  Subscription \<open>doc['body']\<close>: a dict gives the value or raises KeyError; every other
  JSON value refuses a string subscript with TypeError.
\<close>

fun getitem :: "json \<Rightarrow> string \<Rightarrow> error + json" where
  "getitem (JObj kvs) k = (case map_of kvs k of None \<Rightarrow> Inl (KeyError k) | Some v \<Rightarrow> Inr v)"
| "getitem _ k = Inl TypeError"

subsection \<open>Text: \<open>str\<close> of an integer and \<open>str.format\<close>\<close>

definition digit_char :: "nat \<Rightarrow> char" where
  "digit_char d = ''0123456789'' ! d"

fun digits10 :: "nat \<Rightarrow> string" where
  "digits10 n = (if n < 10 then [digit_char n] else digits10 (n div 10) @ [digit_char (n mod 10)])"

declare digits10.simps [simp del]

text \<open>What \<open>format\<close> writes for an \<open>int\<close> argument with an empty format spec: its decimal text.\<close>

definition str_int :: "int \<Rightarrow> string" where
  "str_int i = (if i < 0 then CHR ''-'' # digits10 (nat (- i)) else digits10 (nat i))"

type_synonym kwargs = "(string \<times> string) list"

text \<open>
  \<open>scan_field\<close> splits the text after an opening brace at the first closing brace.
\<close>

fun scan_field :: "string \<Rightarrow> (string \<times> string) option" where
  "scan_field [] = None"
| "scan_field (c # cs) =
     (if c = CHR ''}'' then Some ([], cs)
      else (case scan_field cs of None \<Rightarrow> None | Some (f, r) \<Rightarrow> Some (c # f, r)))"

text \<open>
  A plain field is a keyword name and nothing else: no nested brace, no conversion
  (\<open>!\<close>), no format spec (\<open>:\<close>), no attribute or index access (\<open>.\<close>, \<open>[\<close>), and it does
  not start with a digit (a name of digits only is positional). Every template the
  module writes itself has plain fields only.
\<close>

definition plain_field :: "string \<Rightarrow> bool" where
  "plain_field f =
     (f \<noteq> [] \<and> list_all (\<lambda>c. c \<notin> set ''{[].!:'') f \<and> hd f \<notin> set ''0123456789'')"

text \<open>
  The value of one replacement field under keyword arguments only, as every call of
  \<open>format\<close> in the module passes them: \<open>{}\<close> asks for a positional argument and there is
  none (IndexError); a plain name is looked up (KeyError when it is not a keyword).
\<close>

definition field_value :: "kwargs \<Rightarrow> string \<Rightarrow> error + string" where
  "field_value kw f =
     (if f = [] then Inl IndexError
      else if \<not> plain_field f then Inl (UnmodelledField f)
      else (case map_of kw f of None \<Rightarrow> Inl (KeyError f) | Some v \<Rightarrow> Inr v))"

text \<open>
  \<open>format_py t kw\<close> is \<open>t.format(**kw)\<close>, read left to right as Python does: literal
  text is copied, \<open>{{\<close> and \<open>}}\<close> give one brace, a lone \<open>}\<close> or an unclosed \<open>{\<close> is a
  ValueError, and a field is replaced by its value. The substituted value is not read
  again. The first failure met is the one raised.
\<close>

function format_py :: "string \<Rightarrow> kwargs \<Rightarrow> error + string" where
  "format_py [] kw = Inr []"
| "format_py (c # cs) kw =
     (if c = CHR ''{'' then
        (case cs of
           [] \<Rightarrow> Inl ValueError
         | d # ds \<Rightarrow>
             if d = CHR ''{'' then
               (case format_py ds kw of Inl e \<Rightarrow> Inl e | Inr s \<Rightarrow> Inr (CHR ''{'' # s))
             else
               (case scan_field cs of
                  None \<Rightarrow> Inl ValueError
                | Some (f, r) \<Rightarrow>
                    (case field_value kw f of
                       Inl e \<Rightarrow> Inl e
                     | Inr v \<Rightarrow> (case format_py r kw of Inl e \<Rightarrow> Inl e | Inr s \<Rightarrow> Inr (v @ s)))))
      else if c = CHR ''}'' then
        (case cs of
           [] \<Rightarrow> Inl ValueError
         | d # ds \<Rightarrow>
             if d = CHR ''}'' then
               (case format_py ds kw of Inl e \<Rightarrow> Inl e | Inr s \<Rightarrow> Inr (CHR ''}'' # s))
             else Inl ValueError)
      else (case format_py cs kw of Inl e \<Rightarrow> Inl e | Inr s \<Rightarrow> Inr (c # s)))"
  by pat_completeness auto
termination
proof -
  have shorter: "scan_field cs = Some (f, r) \<Longrightarrow> length r < Suc (length cs)" for cs f r
    by (induction cs arbitrary: f r) (auto split: if_splits option.splits)
  show ?thesis
    by (relation "measure (\<lambda>(t, kw). length t)")
       (auto simp del: scan_field.simps dest: shorter)
qed

declare format_py.simps [simp del]

subsection \<open>The requests library: sessions, requests, responses\<close>

text \<open>
  A \<open>Session\<close> object is known by its reference. One call of \<open>Session.request\<close> is one
  request: the session it goes through, the verb, the URI and the body (\<open>data\<close>,
  absent when \<open>None\<close>).
\<close>

type_synonym session_ref = nat

record request =
  rq_session :: session_ref
  rq_method :: string
  rq_uri :: string
  rq_data :: "string option"

text \<open>
  Of a \<open>Response\<close> the module reads \<open>ok\<close>, \<open>reason\<close> and \<open>json()\<close>. \<open>parsed\<close> is the
  document \<open>json()\<close> decodes from the content, absent when the content is not JSON.
\<close>

record response =
  status_code :: int
  reason :: string
  parsed :: "json option"

text \<open>
  \<open>Response.ok\<close> in requests: \<open>raise_for_status()\<close> does not raise, and that method
  raises exactly for a status from 400 to 599.
\<close>

definition ok :: "response \<Rightarrow> bool" where
  "ok r = (\<not> (400 \<le> status_code r \<and> status_code r < 600))"

text \<open>\<open>Response.json()\<close>: the decoded document, ValueError when there is none.\<close>

definition json_of :: "response \<Rightarrow> error + json" where
  "json_of r = (case parsed r of None \<Rightarrow> Inl ValueError | Some j \<Rightarrow> Inr j)"

text \<open>
  The world outside the client: the requests sent so far (oldest first), the remote
  side, which answers a request knowing everything sent before it (so cookies a session
  carries are covered) or fails to answer, and the next free session reference.
\<close>

record world =
  sent :: "request list"
  remote :: "request list \<Rightarrow> request \<Rightarrow> error + response"
  next_session :: session_ref

text \<open>\<open>requests.Session()\<close>: a fresh session object.\<close>

definition new_session :: "world \<Rightarrow> session_ref \<times> world" where
  "new_session w = (next_session w, w\<lparr>next_session := Suc (next_session w)\<rparr>)"

text \<open>\<open>session.request(method, uri, data=data)\<close>: the request is sent and the answer, or the
  transport's exception, comes back.\<close>

definition session_request ::
  "session_ref \<Rightarrow> string \<Rightarrow> string \<Rightarrow> string option \<Rightarrow> world \<Rightarrow> (error + response) \<times> world" where
  "session_request s m u d w =
     (let rq = \<lparr>rq_session = s, rq_method = m, rq_uri = u, rq_data = d\<rparr>
      in (remote w (sent w) rq, w\<lparr>sent := sent w @ [rq]\<rparr>))"

text \<open>\<open>session.post(uri)\<close> is \<open>session.request('POST', uri)\<close> with no body.\<close>

definition session_post :: "session_ref \<Rightarrow> string \<Rightarrow> world \<Rightarrow> (error + response) \<times> world" where
  "session_post s u w = session_request s ''POST'' u None w"

subsection \<open>The class \<open>ZeppelinClient\<close>\<close>

definition BASEURI_PATTERN :: string where
  "BASEURI_PATTERN = ''http://{host}:{port}/api''"

text \<open>The two attributes \<open>__init__\<close> sets on \<open>self\<close>.\<close>

record client =
  session :: session_ref
  baseuri :: string

text \<open>
  A method takes \<open>self\<close> and the world and gives back its outcome, \<open>self\<close> as it leaves
  it, and the world as it leaves it.
\<close>

type_synonym 'a outcome = "(error + 'a) \<times> client \<times> world"

text \<open>
  \<open>_login\<close>. The parentheses of the source put \<open>format\<close> on the whole concatenation, so
  the base URI is read by \<open>format\<close> together with the query template.
\<close>

definition login :: "client \<Rightarrow> string \<Rightarrow> string \<Rightarrow> world \<Rightarrow> json outcome" where
  "login self username password w =
     (case format_py (baseuri self @ ''/login?userName={username}&password={password}'')
             [(''username'', username), (''password'', password)] of
        Inl e \<Rightarrow> (Inl e, self, w)
      | Inr uri \<Rightarrow>
          (case session_post (session self) uri w of
             (Inl e, w') \<Rightarrow> (Inl e, self, w')
           | (Inr r, w') \<Rightarrow>
               if \<not> ok r
               then (Inl (Exception (reason r @ '': cannot login to zeppelin : '' @ uri)), self, w')
               else (Inr JNull, self, w')))"

text \<open>
  \<open>__init__\<close>: \<open>auth\<close> is \<open>None\<close> or a pair (username, password); the extra keyword
  options are not used. A constructor that raises leaves no client behind.
\<close>

definition init ::
  "string \<Rightarrow> int \<Rightarrow> (string \<times> string) option \<Rightarrow> string \<Rightarrow> world \<Rightarrow> (error + client) \<times> world" where
  "init host port auth baseuri_pattern w =
     (case new_session w of (s, w1) \<Rightarrow>
        (case format_py baseuri_pattern [(''host'', host), (''port'', str_int port)] of
           Inl e \<Rightarrow> (Inl e, w1)
         | Inr b \<Rightarrow>
             (let self = \<lparr>session = s, baseuri = b\<rparr> in
              case auth of
                None \<Rightarrow> (Inr self, w1)
              | Some (username, password) \<Rightarrow>
                  (case login self username password w1 of
                     (Inl e, self', w2) \<Rightarrow> (Inl e, w2)
                   | (Inr _, self', w2) \<Rightarrow> (Inr self', w2)))))"

text \<open>\<open>_talk_to_host\<close>: the status check of the source is commented out.\<close>

definition talk_to_host ::
  "client \<Rightarrow> string \<Rightarrow> string \<Rightarrow> string option \<Rightarrow> world \<Rightarrow> response outcome" where
  "talk_to_host self method uri data w =
     (case session_request (session self) method uri data w of (r, w') \<Rightarrow> (r, self, w'))"

text \<open>The two ways the methods end: \<open>return r.json()['body']\<close>, or falling off the end.\<close>

definition return_body :: "response outcome \<Rightarrow> json outcome" where
  "return_body res =
     (case res of
        (Inl e, self, w) \<Rightarrow> (Inl e, self, w)
      | (Inr r, self, w) \<Rightarrow>
          (case json_of r of
             Inl e \<Rightarrow> (Inl e, self, w)
           | Inr doc \<Rightarrow> (getitem doc ''body'', self, w)))"

definition return_none :: "response outcome \<Rightarrow> json outcome" where
  "return_none res =
     (case res of
        (Inl e, self, w) \<Rightarrow> (Inl e, self, w)
      | (Inr r, self, w) \<Rightarrow> (Inr JNull, self, w))"

subsection \<open>Note operations\<close>

definition list_notebooks :: "client \<Rightarrow> world \<Rightarrow> json outcome" where
  "list_notebooks self w =
     return_body (talk_to_host self ''GET'' (baseuri self @ ''/notebook'') None w)"

definition get_status_of_all_paragraphs :: "client \<Rightarrow> string \<Rightarrow> world \<Rightarrow> json outcome" where
  "get_status_of_all_paragraphs self noteid w =
     (case format_py ''/notebook/job/{noteid}'' [(''noteid'', noteid)] of
        Inl e \<Rightarrow> (Inl e, self, w)
      | Inr path \<Rightarrow> return_body (talk_to_host self ''GET'' (baseuri self @ path) None w))"

definition get_note_info :: "client \<Rightarrow> string \<Rightarrow> world \<Rightarrow> json outcome" where
  "get_note_info self noteid w =
     (case format_py ''/notebook/{noteid}'' [(''noteid'', noteid)] of
        Inl e \<Rightarrow> (Inl e, self, w)
      | Inr path \<Rightarrow> return_body (talk_to_host self ''GET'' (baseuri self @ path) None w))"

definition delete_note :: "client \<Rightarrow> string \<Rightarrow> world \<Rightarrow> json outcome" where
  "delete_note self noteid w =
     (case format_py ''/notebook/{noteid}'' [(''noteid'', noteid)] of
        Inl e \<Rightarrow> (Inl e, self, w)
      | Inr path \<Rightarrow> return_none (talk_to_host self ''DELETE'' (baseuri self @ path) None w))"

text \<open>
  \<open>clone_note\<close>: the body is \<open>{"name":"<name>"}\<close> when \<open>name\<close> is true (neither \<open>None\<close> nor
  empty) and absent otherwise; the verb the source passes is DELETE.
\<close>

definition clone_data :: "string option \<Rightarrow> string option" where
  \<open>clone_data name =
     (case name of
        None \<Rightarrow> None
      | Some n \<Rightarrow> if n = [] then None else Some (''{"name":"'' @ n @ ''"}''))\<close>

definition clone_note :: "client \<Rightarrow> string \<Rightarrow> string option \<Rightarrow> world \<Rightarrow> json outcome" where
  "clone_note self noteid name w =
     (case format_py ''/notebook/{noteid}'' [(''noteid'', noteid)] of
        Inl e \<Rightarrow> (Inl e, self, w)
      | Inr path \<Rightarrow>
          return_body (talk_to_host self ''DELETE'' (baseuri self @ path) (clone_data name) w))"

definition export_note :: "client \<Rightarrow> string \<Rightarrow> world \<Rightarrow> json outcome" where
  "export_note self noteid w = (Inl NotImplementedError, self, w)"

definition import_note :: "client \<Rightarrow> world \<Rightarrow> json outcome" where
  "import_note self w = (Inl NotImplementedError, self, w)"

definition run_all_paragraph :: "client \<Rightarrow> string \<Rightarrow> world \<Rightarrow> json outcome" where
  "run_all_paragraph self noteid w =
     (case format_py ''/notebook/job/{noteid}'' [(''noteid'', noteid)] of
        Inl e \<Rightarrow> (Inl e, self, w)
      | Inr path \<Rightarrow> return_none (talk_to_host self ''POST'' (baseuri self @ path) None w))"

definition stop_all_paragraph :: "client \<Rightarrow> string \<Rightarrow> world \<Rightarrow> json outcome" where
  "stop_all_paragraph self noteid w =
     (case format_py ''/notebook/job/{noteid}'' [(''noteid'', noteid)] of
        Inl e \<Rightarrow> (Inl e, self, w)
      | Inr path \<Rightarrow> return_none (talk_to_host self ''DELETE'' (baseuri self @ path) None w))"

text \<open>
  \<open>clear_all_pargraph_results\<close> has the single parameter \<open>self\<close> and reads a name
  \<open>noteid\<close>, which Python therefore looks up among the module's globals and the builtins
  when the call runs. \<open>scope\<close> is that namespace at the time of the call: each bound name
  with the text \<open>format\<close> writes for its value. The lookup comes first, being an argument
  of the \<open>format\<close> call.
\<close>

type_synonym scope = "string \<rightharpoonup> string"

text \<open>The names the module itself binds at top level.\<close>

definition module_names :: "string list" where
  "module_names = [''requests'', ''BASEURI_PATTERN'', ''ZeppelinClient'']"

definition clear_all_pargraph_results :: "client \<Rightarrow> scope \<Rightarrow> world \<Rightarrow> json outcome" where
  "clear_all_pargraph_results self scope w =
     (case scope ''noteid'' of
        None \<Rightarrow> (Inl (NameError ''noteid''), self, w)
      | Some noteid \<Rightarrow>
          (case format_py ''/notebook/job/{noteid}/clear'' [(''noteid'', noteid)] of
             Inl e \<Rightarrow> (Inl e, self, w)
           | Inr path \<Rightarrow> return_none (talk_to_host self ''PUT'' (baseuri self @ path) None w)))"

subsection \<open>Paragraph operations\<close>

definition create_paragraph :: "client \<Rightarrow> string \<Rightarrow> world \<Rightarrow> json outcome" where
  "create_paragraph self noteid w = (Inl NotImplementedError, self, w)"

definition get_paragraph_info :: "client \<Rightarrow> string \<Rightarrow> string \<Rightarrow> world \<Rightarrow> json outcome" where
  "get_paragraph_info self noteid paragraphid w = (Inl NotImplementedError, self, w)"

definition get_paragraph_status :: "client \<Rightarrow> string \<Rightarrow> string \<Rightarrow> world \<Rightarrow> json outcome" where
  "get_paragraph_status self noteid paragraphid w =
     (case format_py ''/notebook/job/{noteid}/{paragraphid}''
             [(''noteid'', noteid), (''paragraphid'', paragraphid)] of
        Inl e \<Rightarrow> (Inl e, self, w)
      | Inr path \<Rightarrow> return_body (talk_to_host self ''GET'' (baseuri self @ path) None w))"

definition update_paragraph_config :: "client \<Rightarrow> string \<Rightarrow> string \<Rightarrow> world \<Rightarrow> json outcome" where
  "update_paragraph_config self noteid paragraphid w = (Inl NotImplementedError, self, w)"

definition delete_paragraph :: "client \<Rightarrow> string \<Rightarrow> string \<Rightarrow> world \<Rightarrow> json outcome" where
  "delete_paragraph self noteid paragraphid w = (Inl NotImplementedError, self, w)"

definition run_paragraph_asynchronously ::
  "client \<Rightarrow> string \<Rightarrow> string \<Rightarrow> string option \<Rightarrow> world \<Rightarrow> json outcome" where
  "run_paragraph_asynchronously self noteid paragraphid payload w =
     (case format_py ''/notebook/job/{noteid}/{paragraphid}''
             [(''noteid'', noteid), (''paragraphid'', paragraphid)] of
        Inl e \<Rightarrow> (Inl e, self, w)
      | Inr path \<Rightarrow> return_body (talk_to_host self ''POST'' (baseuri self @ path) payload w))"

definition run_paragraph_synchronously ::
  "client \<Rightarrow> string \<Rightarrow> string \<Rightarrow> string option \<Rightarrow> world \<Rightarrow> json outcome" where
  "run_paragraph_synchronously self noteid paragraphid payload w =
     (case format_py ''/notebook/run/{noteid}/{paragraphid}''
             [(''noteid'', noteid), (''paragraphid'', paragraphid)] of
        Inl e \<Rightarrow> (Inl e, self, w)
      | Inr path \<Rightarrow> return_body (talk_to_host self ''POST'' (baseuri self @ path) payload w))"

text \<open>\<open>stop_paragraph\<close>: \<open>payload\<close> is a required parameter the body never reads.\<close>

definition stop_paragraph ::
  "client \<Rightarrow> string \<Rightarrow> string \<Rightarrow> string option \<Rightarrow> world \<Rightarrow> json outcome" where
  "stop_paragraph self noteid paragraphid payload w =
     (case format_py ''/notebook/job/{noteid}/{paragraphid}''
             [(''noteid'', noteid), (''paragraphid'', paragraphid)] of
        Inl e \<Rightarrow> (Inl e, self, w)
      | Inr path \<Rightarrow> return_none (talk_to_host self ''DELETE'' (baseuri self @ path) None w))"

subsection \<open>Calls\<close>

text \<open>
  One constructor for each public method with its arguments, and \<open>invoke\<close> to run the
  method a call names, so that a statement can range over all of them.
\<close>

datatype call =
    List_notebooks
  | Get_status_of_all_paragraphs string
  | Get_note_info string
  | Delete_note string
  | Clone_note string "string option"
  | Export_note string
  | Import_note
  | Run_all_paragraph string
  | Stop_all_paragraph string
  | Clear_all_pargraph_results
  | Create_paragraph string
  | Get_paragraph_info string string
  | Get_paragraph_status string string
  | Update_paragraph_config string string
  | Delete_paragraph string string
  | Run_paragraph_asynchronously string string "string option"
  | Run_paragraph_synchronously string string "string option"
  | Stop_paragraph string string "string option"

fun invoke :: "client \<Rightarrow> scope \<Rightarrow> call \<Rightarrow> world \<Rightarrow> json outcome" where
  "invoke self sc List_notebooks w = list_notebooks self w"
| "invoke self sc (Get_status_of_all_paragraphs n) w = get_status_of_all_paragraphs self n w"
| "invoke self sc (Get_note_info n) w = get_note_info self n w"
| "invoke self sc (Delete_note n) w = delete_note self n w"
| "invoke self sc (Clone_note n name) w = clone_note self n name w"
| "invoke self sc (Export_note n) w = export_note self n w"
| "invoke self sc Import_note w = import_note self w"
| "invoke self sc (Run_all_paragraph n) w = run_all_paragraph self n w"
| "invoke self sc (Stop_all_paragraph n) w = stop_all_paragraph self n w"
| "invoke self sc Clear_all_pargraph_results w = clear_all_pargraph_results self sc w"
| "invoke self sc (Create_paragraph n) w = create_paragraph self n w"
| "invoke self sc (Get_paragraph_info n p) w = get_paragraph_info self n p w"
| "invoke self sc (Get_paragraph_status n p) w = get_paragraph_status self n p w"
| "invoke self sc (Update_paragraph_config n p) w = update_paragraph_config self n p w"
| "invoke self sc (Delete_paragraph n p) w = delete_paragraph self n p w"
| "invoke self sc (Run_paragraph_asynchronously n p d) w = run_paragraph_asynchronously self n p d w"
| "invoke self sc (Run_paragraph_synchronously n p d) w = run_paragraph_synchronously self n p d w"
| "invoke self sc (Stop_paragraph n p d) w = stop_paragraph self n p d w"

text \<open>The three parts of an outcome.\<close>

definition result_of :: "'a outcome \<Rightarrow> error + 'a" where
  "result_of res = fst res"

definition client_of :: "'a outcome \<Rightarrow> client" where
  "client_of res = fst (snd res)"

definition world_of :: "'a outcome \<Rightarrow> world" where
  "world_of res = snd (snd res)"

subsection \<open>What the specification documents\<close>

text \<open>
  The operation table of the specification, row by row: the verb and the path under the
  base URI, with clone note under DELETE as the table annotates it. The rows without a
  verb are the unimplemented operations. The row of clear all paragraph results names a
  note the method has no parameter for; it has no entry here and is treated on its own.
\<close>

fun operation_table :: "call \<Rightarrow> (string \<times> string) option" where
  "operation_table List_notebooks = Some (''GET'', ''/notebook'')"
| "operation_table (Get_status_of_all_paragraphs n) = Some (''GET'', ''/notebook/job/'' @ n)"
| "operation_table (Get_note_info n) = Some (''GET'', ''/notebook/'' @ n)"
| "operation_table (Delete_note n) = Some (''DELETE'', ''/notebook/'' @ n)"
| "operation_table (Clone_note n name) = Some (''DELETE'', ''/notebook/'' @ n)"
| "operation_table (Export_note n) = None"
| "operation_table Import_note = None"
| "operation_table (Run_all_paragraph n) = Some (''POST'', ''/notebook/job/'' @ n)"
| "operation_table (Stop_all_paragraph n) = Some (''DELETE'', ''/notebook/job/'' @ n)"
| "operation_table Clear_all_pargraph_results = None"
| "operation_table (Create_paragraph n) = None"
| "operation_table (Get_paragraph_info n p) = None"
| "operation_table (Get_paragraph_status n p) = Some (''GET'', ''/notebook/job/'' @ n @ ''/'' @ p)"
| "operation_table (Update_paragraph_config n p) = None"
| "operation_table (Delete_paragraph n p) = None"
| "operation_table (Run_paragraph_asynchronously n p d) =
     Some (''POST'', ''/notebook/job/'' @ n @ ''/'' @ p)"
| "operation_table (Run_paragraph_synchronously n p d) =
     Some (''POST'', ''/notebook/run/'' @ n @ ''/'' @ p)"
| "operation_table (Stop_paragraph n p d) = Some (''DELETE'', ''/notebook/job/'' @ n @ ''/'' @ p)"

text \<open>The eleven operations the specification counts as implemented.\<close>

fun implemented :: "call \<Rightarrow> bool" where
  "implemented List_notebooks = True"
| "implemented (Get_status_of_all_paragraphs n) = True"
| "implemented (Get_note_info n) = True"
| "implemented (Delete_note n) = True"
| "implemented (Clone_note n name) = True"
| "implemented (Run_all_paragraph n) = True"
| "implemented (Stop_all_paragraph n) = True"
| "implemented (Get_paragraph_status n p) = True"
| "implemented (Run_paragraph_asynchronously n p d) = True"
| "implemented (Run_paragraph_synchronously n p d) = True"
| "implemented (Stop_paragraph n p d) = True"
| "implemented _ = False"

text \<open>The operations whose row says that the body is extracted.\<close>

fun extracts_body :: "call \<Rightarrow> bool" where
  "extracts_body List_notebooks = True"
| "extracts_body (Get_status_of_all_paragraphs n) = True"
| "extracts_body (Get_note_info n) = True"
| "extracts_body (Clone_note n name) = True"
| "extracts_body (Get_paragraph_status n p) = True"
| "extracts_body (Run_paragraph_asynchronously n p d) = True"
| "extracts_body (Run_paragraph_synchronously n p d) = True"
| "extracts_body _ = False"

text \<open>The operations the specification lists as unimplemented.\<close>

fun unimplemented :: "call \<Rightarrow> bool" where
  "unimplemented (Export_note n) = True"
| "unimplemented Import_note = True"
| "unimplemented (Create_paragraph n) = True"
| "unimplemented (Get_paragraph_info n p) = True"
| "unimplemented (Update_paragraph_config n p) = True"
| "unimplemented (Delete_paragraph n p) = True"
| "unimplemented _ = False"

text \<open>
  A base-URI template in the specification's sense: pieces of literal text without
  braces, and the two placeholders. \<open>template_of\<close> is the template as a string,
  \<open>substituted\<close> the same pieces with each placeholder replaced by its value.
\<close>

definition brace_free :: "string \<Rightarrow> bool" where
  "brace_free s = (CHR ''{'' \<notin> set s \<and> CHR ''}'' \<notin> set s)"

datatype piece = Text string | Host | Port

fun piece_text :: "piece \<Rightarrow> string" where
  "piece_text (Text s) = s"
| "piece_text Host = ''{host}''"
| "piece_text Port = ''{port}''"

fun piece_value :: "string \<Rightarrow> int \<Rightarrow> piece \<Rightarrow> string" where
  "piece_value host port (Text s) = s"
| "piece_value host port Host = host"
| "piece_value host port Port = str_int port"

fun text_ok :: "piece \<Rightarrow> bool" where
  "text_ok (Text s) = brace_free s"
| "text_ok _ = True"

definition template_of :: "piece list \<Rightarrow> string" where
  "template_of ps = concat (map piece_text ps)"

definition substituted :: "string \<Rightarrow> int \<Rightarrow> piece list \<Rightarrow> string" where
  "substituted host port ps = concat (map (piece_value host port) ps)"

subsection \<open>Example data\<close>

text \<open>
  The answer of the specification's example,
  \<open>{"status":"OK","body":[{"id":"2A94M5J1Z","name":"note1"}]}\<close>, and three answers
  with other statuses.
\<close>

definition example_reply :: response where
  "example_reply =
     \<lparr>status_code = 200, reason = ''OK'',
      parsed = Some (JObj [(''status'', JStr ''OK''),
                 (''body'', JArr [JObj [(''id'', JStr ''2A94M5J1Z''), (''name'', JStr ''note1'')]])])\<rparr>"

definition not_modified :: response where
  "not_modified = \<lparr>status_code = 304, reason = ''Not Modified'', parsed = None\<rparr>"

definition forbidden :: response where
  "forbidden = \<lparr>status_code = 403, reason = ''Forbidden'', parsed = None\<rparr>"

definition server_error :: response where
  "server_error = \<lparr>status_code = 500, reason = ''Internal Server Error'', parsed = None\<rparr>"

text \<open>
  Two more answers: one whose content is the JSON array \<open>[1, 2]\<close>, and an error
  answer, a JSON object without a member \<open>body\<close>.
\<close>

definition array_reply :: response where
  "array_reply = \<lparr>status_code = 200, reason = ''OK'', parsed = Some (JArr [JNum 1, JNum 2])\<rparr>"

definition not_found_reply :: response where
  "not_found_reply =
     \<lparr>status_code = 404, reason = ''Not Found'',
      parsed = Some (JObj [(''status'', JStr ''NOT_FOUND''), (''message'', JStr ''note not found.'')])\<rparr>"

text \<open>A world in which nothing has been sent yet and every request gets the answer \<open>r\<close>.\<close>

definition answering :: "response \<Rightarrow> world" where
  "answering r = \<lparr>sent = [], remote = (\<lambda>history rq. Inr r), next_session = 0\<rparr>"

definition example_client :: client where
  "example_client = \<lparr>session = 0, baseuri = ''http://localhost:6080/api''\<rparr>"

section \<open>Auxiliary facts\<close>

subsection \<open>The paths the methods format\<close>

lemma path_note: "format_py ''/notebook/{noteid}'' [(''noteid'', n)] = Inr (''/notebook/'' @ n)"
  by (simp add: format_py.simps field_value_def plain_field_def)

lemma path_job: "format_py ''/notebook/job/{noteid}'' [(''noteid'', n)] = Inr (''/notebook/job/'' @ n)"
  by (simp add: format_py.simps field_value_def plain_field_def)

lemma path_clear:
  "format_py ''/notebook/job/{noteid}/clear'' [(''noteid'', n)] = Inr (''/notebook/job/'' @ n @ ''/clear'')"
  by (simp add: format_py.simps field_value_def plain_field_def)

lemma path_job_paragraph:
  "format_py ''/notebook/job/{noteid}/{paragraphid}'' [(''noteid'', n), (''paragraphid'', p)]
     = Inr (''/notebook/job/'' @ n @ ''/'' @ p)"
  by (simp add: format_py.simps field_value_def plain_field_def)

lemma path_run_paragraph:
  "format_py ''/notebook/run/{noteid}/{paragraphid}'' [(''noteid'', n), (''paragraphid'', p)]
     = Inr (''/notebook/run/'' @ n @ ''/'' @ p)"
  by (simp add: format_py.simps field_value_def plain_field_def)

lemmas paths = path_note path_job path_clear path_job_paragraph path_run_paragraph

lemma talk_to_host_sends:
  "talk_to_host self m u d w =
     (remote w (sent w) \<lparr>rq_session = session self, rq_method = m, rq_uri = u, rq_data = d\<rparr>,
      self,
      w\<lparr>sent := sent w @ [\<lparr>rq_session = session self, rq_method = m, rq_uri = u, rq_data = d\<rparr>]\<rparr>)"
  by (simp add: talk_to_host_def session_request_def Let_def)

lemma world_of_return_body: "world_of (return_body res) = world_of res"
  by (cases res) (auto simp: return_body_def world_of_def split: sum.splits)

lemma world_of_return_none: "world_of (return_none res) = world_of res"
  by (cases res) (auto simp: return_none_def world_of_def split: sum.splits)

lemma client_of_return_body: "client_of (return_body res) = client_of res"
  by (cases res) (auto simp: return_body_def client_of_def split: sum.splits)

lemma client_of_return_none: "client_of (return_none res) = client_of res"
  by (cases res) (auto simp: return_none_def client_of_def split: sum.splits)

lemmas method_defs =
  list_notebooks_def get_status_of_all_paragraphs_def get_note_info_def delete_note_def
  clone_note_def export_note_def import_note_def run_all_paragraph_def stop_all_paragraph_def
  clear_all_pargraph_results_def create_paragraph_def get_paragraph_info_def
  get_paragraph_status_def update_paragraph_config_def delete_paragraph_def
  run_paragraph_asynchronously_def run_paragraph_synchronously_def stop_paragraph_def

subsection \<open>Formatting a template piece by piece\<close>

lemma format_text:
  "brace_free s \<Longrightarrow>
     format_py (s @ t) kw = (case format_py t kw of Inl e \<Rightarrow> Inl e | Inr u \<Rightarrow> Inr (s @ u))"
  by (induction s) (auto simp: format_py.simps brace_free_def split: sum.splits)

lemma format_host:
  "format_py (''{host}'' @ t) [(''host'', h), (''port'', p)] =
     (case format_py t [(''host'', h), (''port'', p)] of Inl e \<Rightarrow> Inl e | Inr u \<Rightarrow> Inr (h @ u))"
  by (simp add: format_py.simps field_value_def plain_field_def)

lemma format_port:
  "format_py (''{port}'' @ t) [(''host'', h), (''port'', p)] =
     (case format_py t [(''host'', h), (''port'', p)] of Inl e \<Rightarrow> Inl e | Inr u \<Rightarrow> Inr (p @ u))"
  by (simp add: format_py.simps field_value_def plain_field_def)

lemma format_pieces:
  "list_all text_ok ps \<Longrightarrow>
     format_py (template_of ps @ t) [(''host'', host), (''port'', str_int port)] =
       (case format_py t [(''host'', host), (''port'', str_int port)] of
          Inl e \<Rightarrow> Inl e | Inr u \<Rightarrow> Inr (substituted host port ps @ u))"
proof (induction ps)
  case Nil
  show ?case by (simp add: template_of_def substituted_def split: sum.splits)
next
  case (Cons a ps)
  then have IH: "format_py (template_of ps @ t) [(''host'', host), (''port'', str_int port)] =
       (case format_py t [(''host'', host), (''port'', str_int port)] of
          Inl e \<Rightarrow> Inl e | Inr u \<Rightarrow> Inr (substituted host port ps @ u))" by simp
  show ?case
  proof (cases a)
    case (Text s)
    with Cons.prems have "brace_free s" by simp
    from format_text [OF this] IH Text show ?thesis
      by (simp add: template_of_def substituted_def split: sum.splits)
  next
    case Host
    with IH format_host [of "template_of ps @ t" host "str_int port"] show ?thesis
      by (simp add: template_of_def substituted_def split: sum.splits)
  next
    case Port
    with IH format_port [of "template_of ps @ t" host "str_int port"] show ?thesis
      by (simp add: template_of_def substituted_def split: sum.splits)
  qed
qed

lemma format_template:
  "list_all text_ok ps \<Longrightarrow>
     format_py (template_of ps) [(''host'', host), (''port'', str_int port)] =
       Inr (substituted host port ps)"
  using format_pieces [of ps "[]" host port] by (simp add: format_py.simps)

lemma login_uri:
  "brace_free b \<Longrightarrow>
     format_py (b @ ''/login?userName={username}&password={password}'')
        [(''username'', u), (''password'', p)]
       = Inr (b @ ''/login?userName='' @ u @ ''&password='' @ p)"
  by (simp add: format_text) (simp add: format_py.simps field_value_def plain_field_def)

lemma client_of_login: "client_of (login self u p w) = self"
  by (simp add: login_def client_of_def split: sum.splits prod.splits)

lemma default_template:
  "template_of [Text ''http://'', Host, Text '':'', Port, Text ''/api''] = BASEURI_PATTERN"
  by (simp add: template_of_def BASEURI_PATTERN_def)

lemma return_body_answer:
  "return_body (Inr r, self, w) =
     ((case parsed r of None \<Rightarrow> Inl ValueError | Some doc \<Rightarrow> getitem doc ''body''), self, w)"
  by (simp add: return_body_def json_of_def split: option.splits)

section \<open>The claims\<close>

subsection \<open>C1: one request per implemented operation\<close>

text \<open>
  C1. Each of the eleven implemented operations (list all notes, list paragraph
  statuses, get note info, delete note, clone note, run all paragraphs, stop all
  paragraphs, get single paragraph status, run paragraph asynchronously, run paragraph
  synchronously, stop paragraph) sends exactly one request: the list of requests sent
  grows by one entry, which goes through the client's session and carries the verb of
  the operation table and the base URI followed by the table's path. Clone note is in
  the table with DELETE. This holds whatever comes back, also when nothing does.
\<close>

theorem one_request_as_documented:
  "implemented call \<Longrightarrow>
     \<exists>verb path rq. operation_table call = Some (verb, path)
        \<and> sent (world_of (invoke self sc call w)) = sent w @ [rq]
        \<and> rq_method rq = verb \<and> rq_uri rq = baseuri self @ path
        \<and> rq_session rq = session self"
  by (cases call)
     (simp_all add: method_defs paths world_of_return_body world_of_return_none
        talk_to_host_sends, simp_all add: world_of_def)

theorem one_request_as_documented_witness:
  \<open>implemented (Clone_note ''2A94M5J1Z'' (Some ''copy''))
   \<and> (\<exists>verb path rq.
        operation_table (Clone_note ''2A94M5J1Z'' (Some ''copy'')) = Some (verb, path)
        \<and> sent (world_of (invoke example_client Map.empty (Clone_note ''2A94M5J1Z'' (Some ''copy''))
             (answering example_reply))) = sent (answering example_reply) @ [rq]
        \<and> rq_method rq = verb \<and> rq_uri rq = baseuri example_client @ path
        \<and> rq_session rq = session example_client)
   \<and> sent (world_of (invoke example_client Map.empty (Clone_note ''2A94M5J1Z'' (Some ''copy''))
             (answering example_reply)))
       = [\<lparr>rq_session = 0, rq_method = ''DELETE'',
           rq_uri = ''http://localhost:6080/api/notebook/2A94M5J1Z'',
           rq_data = Some ''{"name":"copy"}''\<rparr>]\<close>
proof -
  have concrete:
    \<open>sent (world_of (invoke example_client Map.empty (Clone_note ''2A94M5J1Z'' (Some ''copy''))
             (answering example_reply)))
       = [\<lparr>rq_session = 0, rq_method = ''DELETE'',
           rq_uri = ''http://localhost:6080/api/notebook/2A94M5J1Z'',
           rq_data = Some ''{"name":"copy"}''\<rparr>]\<close>
    by (simp add: clone_note_def path_note talk_to_host_sends world_of_return_body clone_data_def)
       (simp add: world_of_def answering_def example_client_def)
  from one_request_as_documented [of "Clone_note ''2A94M5J1Z'' (Some ''copy'')" example_client
          Map.empty "answering example_reply"] concrete
  show ?thesis by simp
qed

subsection \<open>C2: the body field\<close>

text \<open>
  C2 as stated does not hold for an answer whose JSON document is not an object. The
  array \<open>[1, 2]\<close> is a JSON response without a top-level field \<open>body\<close>, and
  \<open>list_notebooks\<close> answered with it fails with TypeError, the subscript of a list by a
  string, not with a key-lookup error.
\<close>

theorem body_claim_counterexample:
  "parsed array_reply = Some (JArr [JNum 1, JNum 2])
   \<and> result_of (invoke example_client Map.empty List_notebooks (answering array_reply))
        = Inl TypeError
   \<and> result_of (invoke example_client Map.empty List_notebooks (answering array_reply))
        \<noteq> Inl (KeyError ''body'')"
  by (simp add: list_notebooks_def talk_to_host_sends return_body_answer result_of_def
        answering_def array_reply_def)

text \<open>
  C2, amended. For each of the seven operations that extract the body (list all notes,
  list paragraph statuses, get note info, clone note, get single paragraph status, run
  paragraph asynchronously, run paragraph synchronously), when the request is answered
  with a JSON document: if the document is an object with a member \<open>body\<close>, the
  operation returns exactly the value of that member; if it is an object without that
  member, the operation raises KeyError for \<open>body\<close>; if it is not an object, the
  operation raises TypeError. The status of the answer plays no part. The examples are
  the one of the specification and an error answer without \<open>body\<close>.
\<close>

theorem body_extracted:
  "extracts_body call \<Longrightarrow>
   remote w (sent w) (last (sent (world_of (invoke self sc call w)))) = Inr r \<Longrightarrow>
   parsed r = Some doc \<Longrightarrow>
     result_of (invoke self sc call w) =
       (case doc of
          JObj members \<Rightarrow>
            (case map_of members ''body'' of Some v \<Rightarrow> Inr v | None \<Rightarrow> Inl (KeyError ''body''))
        | _ \<Rightarrow> Inl TypeError)"
proof -
  assume e: "extracts_body call"
    and a: "remote w (sent w) (last (sent (world_of (invoke self sc call w)))) = Inr r"
    and d: "parsed r = Some doc"
  from e a d have "result_of (invoke self sc call w) = getitem doc ''body''"
    by (cases call)
       (simp_all add: method_defs paths talk_to_host_sends world_of_return_body,
        simp_all add: world_of_def result_of_def return_body_answer)
  then show ?thesis
    by (cases doc) (simp_all split: option.splits)
qed

theorem body_extracted_witness:
  "extracts_body List_notebooks
   \<and> remote (answering example_reply) (sent (answering example_reply))
        (last (sent (world_of (invoke example_client Map.empty List_notebooks
           (answering example_reply))))) = Inr example_reply
   \<and> parsed example_reply =
        Some (JObj [(''status'', JStr ''OK''),
                 (''body'', JArr [JObj [(''id'', JStr ''2A94M5J1Z''), (''name'', JStr ''note1'')]])])
   \<and> result_of (invoke example_client Map.empty List_notebooks (answering example_reply)) =
        Inr (JArr [JObj [(''id'', JStr ''2A94M5J1Z''), (''name'', JStr ''note1'')]])
   \<and> extracts_body (Get_note_info ''2A94M5J1Z'')
   \<and> remote (answering not_found_reply) (sent (answering not_found_reply))
        (last (sent (world_of (invoke example_client Map.empty (Get_note_info ''2A94M5J1Z'')
           (answering not_found_reply))))) = Inr not_found_reply
   \<and> parsed not_found_reply =
        Some (JObj [(''status'', JStr ''NOT_FOUND''), (''message'', JStr ''note not found.'')])
   \<and> result_of (invoke example_client Map.empty (Get_note_info ''2A94M5J1Z'')
        (answering not_found_reply)) = Inl (KeyError ''body'')"
  using body_extracted [of List_notebooks "answering example_reply" example_client Map.empty
      example_reply
      "JObj [(''status'', JStr ''OK''),
        (''body'', JArr [JObj [(''id'', JStr ''2A94M5J1Z''), (''name'', JStr ''note1'')]])]"]
    body_extracted [of "Get_note_info ''2A94M5J1Z''" "answering not_found_reply" example_client
      Map.empty not_found_reply
      "JObj [(''status'', JStr ''NOT_FOUND''), (''message'', JStr ''note not found.'')]"]
  by (simp add: answering_def example_reply_def not_found_reply_def)

subsection \<open>C3: the login request\<close>

text \<open>
  C3 as stated does not hold in two respects. First, a login answered with status 304
  is not a 2xx answer, yet \<open>Response.ok\<close> is true for it and construction succeeds:
  \<open>_login\<close> raises for the statuses 400 to 599 only. Second, \<open>_login\<close> formats the base
  URI together with the query template, so for the host \<open>{x}\<close> the base URI
  \<open>http://{x}:6080/api\<close> makes \<open>format\<close> raise KeyError and no request is sent at all.
\<close>

theorem login_claim_counterexample:
  "fst (init ''localhost'' 6080 (Some (''alice'', ''secret'')) BASEURI_PATTERN
          (answering not_modified))
     = Inr \<lparr>session = 0, baseuri = ''http://localhost:6080/api''\<rparr>
   \<and> sent (snd (init ''localhost'' 6080 (Some (''alice'', ''secret'')) BASEURI_PATTERN
          (answering not_modified)))
     = [\<lparr>rq_session = 0, rq_method = ''POST'',
         rq_uri = ''http://localhost:6080/api/login?userName=alice&password=secret'',
         rq_data = None\<rparr>]
   \<and> \<not> (200 \<le> status_code not_modified \<and> status_code not_modified < 300)
   \<and> fst (init ''{x}'' 6080 (Some (''alice'', ''secret'')) BASEURI_PATTERN
          (answering forbidden))
     = Inl (KeyError ''x'')
   \<and> sent (snd (init ''{x}'' 6080 (Some (''alice'', ''secret'')) BASEURI_PATTERN
          (answering forbidden)))
     = []"
  by (simp add: init_def new_session_def login_def session_post_def session_request_def
        format_py.simps field_value_def plain_field_def str_int_def digits10.simps
        digit_char_def BASEURI_PATTERN_def ok_def answering_def not_modified_def
        forbidden_def)

text \<open>
  C3, amended. Whenever the base URI that construction builds contains no brace,
  constructing the client with a credentials pair sends exactly one request: a POST
  without body, through the new session, to the base URI followed by
  \<open>/login?userName=\<close>, the username, \<open>&password=\<close> and the password. If the answer has a
  status from 400 to 599, construction raises \<open>Exception\<close> with the message made of the
  reason phrase, \<open>: cannot login to zeppelin : \<close> and that URI, so the message contains
  both; with any other status construction yields the client. In either case nothing
  else is sent: there is no retry.
\<close>

theorem login_once:
  "format_py baseuri_pattern [(''host'', host), (''port'', str_int port)] = Inr b \<Longrightarrow>
   brace_free b \<Longrightarrow>
   uri = b @ ''/login?userName='' @ username @ ''&password='' @ password \<Longrightarrow>
   rq = \<lparr>rq_session = next_session w, rq_method = ''POST'', rq_uri = uri, rq_data = None\<rparr> \<Longrightarrow>
     sent (snd (init host port (Some (username, password)) baseuri_pattern w)) = sent w @ [rq]
     \<and> (remote w (sent w) rq = Inr r \<and> 400 \<le> status_code r \<and> status_code r < 600 \<longrightarrow>
          fst (init host port (Some (username, password)) baseuri_pattern w) =
             Inl (Exception (reason r @ '': cannot login to zeppelin : '' @ uri))
          \<and> sublist (reason r) (reason r @ '': cannot login to zeppelin : '' @ uri)
          \<and> sublist uri (reason r @ '': cannot login to zeppelin : '' @ uri))
     \<and> (remote w (sent w) rq = Inr r \<and> \<not> (400 \<le> status_code r \<and> status_code r < 600) \<longrightarrow>
          fst (init host port (Some (username, password)) baseuri_pattern w) =
             Inr \<lparr>session = next_session w, baseuri = b\<rparr>)"
proof -
  assume f: "format_py baseuri_pattern [(''host'', host), (''port'', str_int port)] = Inr b"
    and b: "brace_free b"
    and uri: "uri = b @ ''/login?userName='' @ username @ ''&password='' @ password"
    and rq: "rq = \<lparr>rq_session = next_session w, rq_method = ''POST'', rq_uri = uri, rq_data = None\<rparr>"
  let ?self = "\<lparr>session = next_session w, baseuri = b\<rparr>"
  let ?w1 = "w\<lparr>next_session := Suc (next_session w)\<rparr>"
  have l: "login ?self username password ?w1 =
      (case remote w (sent w) rq of
         Inl e \<Rightarrow> (Inl e, ?self, ?w1\<lparr>sent := sent w @ [rq]\<rparr>)
       | Inr r \<Rightarrow>
           if \<not> ok r
           then (Inl (Exception (reason r @ '': cannot login to zeppelin : '' @ uri)), ?self,
                 ?w1\<lparr>sent := sent w @ [rq]\<rparr>)
           else (Inr JNull, ?self, ?w1\<lparr>sent := sent w @ [rq]\<rparr>))"
    by (simp add: login_def login_uri [OF b] session_post_def session_request_def uri rq
          split: sum.splits)
  have i: "init host port (Some (username, password)) baseuri_pattern w =
      (case login ?self username password ?w1 of
         (Inl e, self', w2) \<Rightarrow> (Inl e, w2)
       | (Inr x, self', w2) \<Rightarrow> (Inr self', w2))"
    by (simp add: init_def new_session_def f)
  have s1: "sublist (reason r) (reason r @ '': cannot login to zeppelin : '' @ uri)"
    by (rule sublist_append_rightI)
  have s2: "sublist uri (reason r @ '': cannot login to zeppelin : '' @ uri)"
    using sublist_appendI [of uri "reason r @ '': cannot login to zeppelin : ''" "[]"] by simp
  show ?thesis
    unfolding i l using s1 s2 by (auto simp: ok_def split: sum.splits)
qed

theorem login_once_witness:
  "format_py BASEURI_PATTERN [(''host'', ''localhost''), (''port'', str_int 6080)]
      = Inr ''http://localhost:6080/api''
   \<and> brace_free ''http://localhost:6080/api''
   \<and> remote (answering forbidden) (sent (answering forbidden))
        \<lparr>rq_session = 0, rq_method = ''POST'',
         rq_uri = ''http://localhost:6080/api/login?userName=alice&password=secret'',
         rq_data = None\<rparr> = Inr forbidden
   \<and> 400 \<le> status_code forbidden \<and> status_code forbidden < 600
   \<and> sent (snd (init ''localhost'' 6080 (Some (''alice'', ''secret'')) BASEURI_PATTERN
          (answering forbidden)))
      = [\<lparr>rq_session = 0, rq_method = ''POST'',
          rq_uri = ''http://localhost:6080/api/login?userName=alice&password=secret'',
          rq_data = None\<rparr>]
   \<and> fst (init ''localhost'' 6080 (Some (''alice'', ''secret'')) BASEURI_PATTERN
          (answering forbidden))
      = Inl (Exception
          ''Forbidden: cannot login to zeppelin : http://localhost:6080/api/login?userName=alice&password=secret'')
   \<and> remote (answering example_reply) (sent (answering example_reply))
        \<lparr>rq_session = 0, rq_method = ''POST'',
         rq_uri = ''http://localhost:6080/api/login?userName=alice&password=secret'',
         rq_data = None\<rparr> = Inr example_reply
   \<and> \<not> (400 \<le> status_code example_reply \<and> status_code example_reply < 600)
   \<and> fst (init ''localhost'' 6080 (Some (''alice'', ''secret'')) BASEURI_PATTERN
          (answering example_reply))
      = Inr \<lparr>session = 0, baseuri = ''http://localhost:6080/api''\<rparr>"
proof -
  have f: "format_py BASEURI_PATTERN [(''host'', ''localhost''), (''port'', str_int 6080)]
      = Inr ''http://localhost:6080/api''"
    by (simp add: BASEURI_PATTERN_def format_py.simps field_value_def plain_field_def
          str_int_def digits10.simps digit_char_def)
  have b: "brace_free ''http://localhost:6080/api''"
    by (simp add: brace_free_def)
  have n1: "next_session (answering forbidden) = 0" "next_session (answering example_reply) = 0"
    by (simp_all add: answering_def)
  show ?thesis
    using login_once [OF f b refl refl, of "''alice''" "''secret''" "answering forbidden" forbidden]
          login_once [OF f b refl refl, of "''alice''" "''secret''" "answering example_reply"
             example_reply]
    unfolding n1
    by (simp add: f b) (simp add: answering_def forbidden_def example_reply_def)
qed

subsection \<open>C4: clear all paragraph results\<close>

text \<open>
  C4. \<open>clear_all_pargraph_results\<close> reads the name \<open>noteid\<close>, which is neither its
  parameter nor a name the module binds. When the name is unbound the call raises
  NameError and leaves the world as it was, so no request is sent; this is the case in
  particular in every scope that binds at most the module's own names. Only when the
  name resolves, to \<open>n\<close> say, does the call send its request: one PUT without body to
  \<open>/notebook/job/n/clear\<close> under the base URI.
\<close>

theorem clear_all_unbound_name:
  "(sc ''noteid'' = None \<longrightarrow>
      clear_all_pargraph_results self sc w = (Inl (NameError ''noteid''), self, w))
   \<and> (dom sc \<subseteq> set module_names \<longrightarrow>
      clear_all_pargraph_results self sc w = (Inl (NameError ''noteid''), self, w))
   \<and> (sc ''noteid'' = Some n \<longrightarrow>
      world_of (clear_all_pargraph_results self sc w) =
        w\<lparr>sent := sent w @
           [\<lparr>rq_session = session self, rq_method = ''PUT'',
             rq_uri = baseuri self @ ''/notebook/job/'' @ n @ ''/clear'', rq_data = None\<rparr>]\<rparr>)"
proof (intro conjI impI)
  show "clear_all_pargraph_results self sc w = (Inl (NameError ''noteid''), self, w)"
    if "sc ''noteid'' = None"
    using that by (simp add: clear_all_pargraph_results_def)
  show "clear_all_pargraph_results self sc w = (Inl (NameError ''noteid''), self, w)"
    if "dom sc \<subseteq> set module_names"
  proof -
    have "''noteid'' \<notin> set module_names" by (simp add: module_names_def)
    with that have "''noteid'' \<notin> dom sc" by blast
    then have "sc ''noteid'' = None" by (simp add: domIff)
    then show ?thesis by (simp add: clear_all_pargraph_results_def)
  qed
  show "world_of (clear_all_pargraph_results self sc w) =
        w\<lparr>sent := sent w @
           [\<lparr>rq_session = session self, rq_method = ''PUT'',
             rq_uri = baseuri self @ ''/notebook/job/'' @ n @ ''/clear'', rq_data = None\<rparr>]\<rparr>"
    if "sc ''noteid'' = Some n"
    using that
    by (simp add: clear_all_pargraph_results_def path_clear world_of_return_none
          talk_to_host_sends) (simp add: world_of_def)
qed

theorem clear_all_unbound_name_witness:
  "[''BASEURI_PATTERN'' \<mapsto> ''http://{host}:{port}/api''] ''noteid'' = None
   \<and> dom [''BASEURI_PATTERN'' \<mapsto> ''http://{host}:{port}/api''] \<subseteq> set module_names
   \<and> clear_all_pargraph_results example_client
        [''BASEURI_PATTERN'' \<mapsto> ''http://{host}:{port}/api''] (answering example_reply)
       = (Inl (NameError ''noteid''), example_client, answering example_reply)
   \<and> [''noteid'' \<mapsto> ''2A94M5J1Z''] ''noteid'' = Some ''2A94M5J1Z''
   \<and> sent (world_of (clear_all_pargraph_results example_client [''noteid'' \<mapsto> ''2A94M5J1Z'']
        (answering example_reply)))
       = [\<lparr>rq_session = 0, rq_method = ''PUT'',
           rq_uri = ''http://localhost:6080/api/notebook/job/2A94M5J1Z/clear'',
           rq_data = None\<rparr>]"
  using clear_all_unbound_name [of "[''BASEURI_PATTERN'' \<mapsto> ''http://{host}:{port}/api'']"
          example_client "answering example_reply"]
        clear_all_unbound_name [of "[''noteid'' \<mapsto> ''2A94M5J1Z'']"
          example_client "answering example_reply" "''2A94M5J1Z''"]
  by (simp add: module_names_def) (simp add: answering_def example_client_def)

subsection \<open>C5: the request-execution operation\<close>

text \<open>
  C5. \<open>_talk_to_host\<close> sends the request it is given (verb, URI, body) through the
  client's session and hands back what the session gives: whenever a response arrives,
  the result is that very response, whatever its status. It raises nothing of its own.
\<close>

theorem talk_to_host_raw:
  "talk_to_host self method uri data w =
     (remote w (sent w)
        \<lparr>rq_session = session self, rq_method = method, rq_uri = uri, rq_data = data\<rparr>,
      self,
      w\<lparr>sent := sent w @
         [\<lparr>rq_session = session self, rq_method = method, rq_uri = uri, rq_data = data\<rparr>]\<rparr>)
   \<and> (remote w (sent w)
         \<lparr>rq_session = session self, rq_method = method, rq_uri = uri, rq_data = data\<rparr> = Inr r
        \<longrightarrow> result_of (talk_to_host self method uri data w) = Inr r)"
  by (simp add: talk_to_host_def session_request_def result_of_def Let_def)

theorem talk_to_host_raw_witness:
  "remote (answering server_error) (sent (answering server_error))
      \<lparr>rq_session = session example_client, rq_method = ''GET'',
       rq_uri = ''http://localhost:6080/api/notebook'', rq_data = None\<rparr> = Inr server_error
   \<and> status_code server_error = 500
   \<and> result_of (talk_to_host example_client ''GET'' ''http://localhost:6080/api/notebook'' None
        (answering server_error)) = Inr server_error"
  using talk_to_host_raw [of example_client "''GET''" "''http://localhost:6080/api/notebook''"
          None "answering server_error" server_error]
  by (simp add: answering_def server_error_def result_of_def)

subsection \<open>C6: unimplemented operations\<close>

text \<open>
  C6. Each unimplemented operation (export note, import note, create paragraph, get
  paragraph info, update paragraph config, delete paragraph) raises NotImplementedError
  and leaves the client and the world untouched: nothing is sent.
\<close>

theorem unimplemented_raise:
  "unimplemented call \<Longrightarrow> invoke self sc call w = (Inl NotImplementedError, self, w)"
  by (cases call) (simp_all add: method_defs)

theorem unimplemented_raise_witness:
  "unimplemented Import_note
   \<and> invoke example_client Map.empty Import_note (answering example_reply) =
       (Inl NotImplementedError, example_client, answering example_reply)"
  using unimplemented_raise [of Import_note example_client Map.empty "answering example_reply"]
  by simp

subsection \<open>C7: the base URI\<close>

text \<open>
  C7. For every host and port, and every template made of brace-free text and the
  placeholders \<open>{host}\<close> and \<open>{port}\<close>, construction without credentials yields a client
  whose base URI is the template with every placeholder replaced by its value, the
  values themselves being left as they are; and whenever construction with credentials
  yields a client, its base URI is the same. The default template is of this kind and
  gives \<open>http://\<close>, the host, \<open>:\<close>, the port in decimal, \<open>/api\<close>.
\<close>

theorem baseuri_substituted_once:
  "list_all text_ok ps \<Longrightarrow>
     init host port None (template_of ps) w =
        (Inr \<lparr>session = next_session w, baseuri = substituted host port ps\<rparr>,
         w\<lparr>next_session := Suc (next_session w)\<rparr>)
     \<and> (fst (init host port auth (template_of ps) w) = Inr c \<longrightarrow>
           baseuri c = substituted host port ps)
     \<and> template_of [Text ''http://'', Host, Text '':'', Port, Text ''/api''] = BASEURI_PATTERN
     \<and> substituted host port [Text ''http://'', Host, Text '':'', Port, Text ''/api'']
          = ''http://'' @ host @ '':'' @ str_int port @ ''/api''"
proof (intro conjI impI)
  assume ok: "list_all text_ok ps"
  show "init host port None (template_of ps) w =
        (Inr \<lparr>session = next_session w, baseuri = substituted host port ps\<rparr>,
         w\<lparr>next_session := Suc (next_session w)\<rparr>)"
    by (simp add: init_def new_session_def format_template [OF ok])
  show "baseuri c = substituted host port ps"
    if "fst (init host port auth (template_of ps) w) = Inr c"
  proof (cases auth)
    case None
    with that show ?thesis
      by (auto simp: init_def new_session_def format_template [OF ok])
  next
    case (Some a)
    obtain u p where a: "a = (u, p)" by (cases a)
    let ?self = "\<lparr>session = next_session w, baseuri = substituted host port ps\<rparr>"
    let ?w1 = "w\<lparr>next_session := Suc (next_session w)\<rparr>"
    obtain res self' w2 where l: "login ?self u p ?w1 = (res, self', w2)"
      by (cases "login ?self u p ?w1")
    with client_of_login [of ?self u p ?w1] have "self' = ?self"
      by (simp add: client_of_def)
    with that Some a l show ?thesis
      by (cases res) (auto simp: init_def new_session_def format_template [OF ok])
  qed
  show "template_of [Text ''http://'', Host, Text '':'', Port, Text ''/api''] = BASEURI_PATTERN"
    by (rule default_template)
  show "substituted host port [Text ''http://'', Host, Text '':'', Port, Text ''/api'']
          = ''http://'' @ host @ '':'' @ str_int port @ ''/api''"
    by (simp add: substituted_def)
qed

theorem baseuri_substituted_once_witness:
  "list_all text_ok [Text ''http://'', Host, Text '':'', Port, Text ''/api'']
   \<and> fst (init ''localhost'' 6080 None BASEURI_PATTERN (answering example_reply))
       = Inr \<lparr>session = 0, baseuri = ''http://localhost:6080/api''\<rparr>
   \<and> baseuri \<lparr>session = 0, baseuri = ''http://localhost:6080/api''\<rparr>
       = ''http://'' @ ''localhost'' @ '':'' @ str_int 6080 @ ''/api''"
proof -
  have ok: "list_all text_ok [Text ''http://'', Host, Text '':'', Port, Text ''/api'']"
    by (simp add: brace_free_def)
  have s: "str_int 6080 = ''6080''"
    by (simp add: str_int_def digits10.simps digit_char_def)
  have n: "next_session (answering example_reply) = 0"
    by (simp add: answering_def)
  from baseuri_substituted_once [OF ok, of "''localhost''" 6080 "answering example_reply" None
      "\<lparr>session = 0, baseuri = ''http://localhost:6080/api''\<rparr>"]
  show ?thesis
    unfolding default_template
    by (simp add: s n substituted_def brace_free_def)
qed

subsection \<open>C8: construction without credentials\<close>

text \<open>
  C8. Construction with \<open>auth\<close> absent or \<open>None\<close> sends nothing, for every host, port and
  template: the world afterwards differs only in the session reference handed out.
\<close>

theorem no_credentials_no_request:
  "snd (init host port None baseuri_pattern w) = w\<lparr>next_session := Suc (next_session w)\<rparr>
   \<and> sent (snd (init host port None baseuri_pattern w)) = sent w"
  by (simp add: init_def new_session_def split: sum.splits)

subsection \<open>C9: stop paragraph\<close>

text \<open>
  C9. \<open>stop_paragraph\<close> sends one DELETE to \<open>/notebook/job/noteid/paragraphid\<close> under
  the base URI with no body, returns \<open>None\<close> once a response has arrived (and passes on
  the transport's exception otherwise), and does the same for every payload.
\<close>

theorem stop_paragraph_ignores_payload:
  "stop_paragraph self noteid paragraphid payload w =
     ((case remote w (sent w)
              \<lparr>rq_session = session self, rq_method = ''DELETE'',
               rq_uri = baseuri self @ ''/notebook/job/'' @ noteid @ ''/'' @ paragraphid,
               rq_data = None\<rparr> of
         Inl e \<Rightarrow> Inl e
       | Inr r \<Rightarrow> Inr JNull),
      self,
      w\<lparr>sent := sent w @
         [\<lparr>rq_session = session self, rq_method = ''DELETE'',
           rq_uri = baseuri self @ ''/notebook/job/'' @ noteid @ ''/'' @ paragraphid,
           rq_data = None\<rparr>]\<rparr>)
   \<and> stop_paragraph self noteid paragraphid payload w =
       stop_paragraph self noteid paragraphid payload' w"
  by (simp add: stop_paragraph_def path_job_paragraph talk_to_host_sends return_none_def
        split: sum.splits)

subsection \<open>C10: the client's own state\<close>

text \<open>
  C10. No public operation changes the client: after any call the session reference
  and the base URI are what they were. They are set by construction, to the new session
  and to the formatted template.
\<close>

theorem client_state_frame:
  "client_of (invoke self sc call w) = self
   \<and> (fst (init host port auth baseuri_pattern w) = Inr c \<longrightarrow>
        session c = next_session w
        \<and> format_py baseuri_pattern [(''host'', host), (''port'', str_int port)]
             = Inr (baseuri c))"
proof -
  have frame: "client_of (invoke self sc call w) = self"
    by (cases call)
     (simp_all add: method_defs paths client_of_return_body client_of_return_none
        talk_to_host_sends split: option.splits, simp_all add: client_of_def)
  have made: "session c = next_session w
        \<and> format_py baseuri_pattern [(''host'', host), (''port'', str_int port)]
             = Inr (baseuri c)"
    if a: "fst (init host port auth baseuri_pattern w) = Inr c"
  proof -
    let ?w1 = "w\<lparr>next_session := Suc (next_session w)\<rparr>"
    obtain b where b:
      "format_py baseuri_pattern [(''host'', host), (''port'', str_int port)] = Inr b"
      using a
      by (cases "format_py baseuri_pattern [(''host'', host), (''port'', str_int port)]")
         (auto simp: init_def new_session_def)
    let ?self = "\<lparr>session = next_session w, baseuri = b\<rparr>"
    have "c = ?self"
    proof (cases auth)
      case None
      with a b show ?thesis by (simp add: init_def new_session_def)
    next
      case (Some up)
      obtain u p where up: "up = (u, p)" by (cases up)
      obtain res self' w2 where l: "login ?self u p ?w1 = (res, self', w2)"
        by (cases "login ?self u p ?w1")
      with client_of_login [of ?self u p ?w1] have "self' = ?self"
        by (simp add: client_of_def)
      with a b Some up l show ?thesis
        by (cases res) (auto simp: init_def new_session_def)
    qed
    with b show ?thesis by simp
  qed
  from frame made show ?thesis by blast
qed

theorem client_state_frame_witness:
  "fst (init ''localhost'' 6080 None BASEURI_PATTERN (answering example_reply)) = Inr example_client
   \<and> client_of (invoke example_client Map.empty (Delete_note ''2A94M5J1Z'')
        (answering example_reply)) = example_client
   \<and> session example_client = next_session (answering example_reply)
   \<and> format_py BASEURI_PATTERN [(''host'', ''localhost''), (''port'', str_int 6080)]
        = Inr (baseuri example_client)"
proof -
  have i: "fst (init ''localhost'' 6080 None BASEURI_PATTERN (answering example_reply))
      = Inr example_client"
    by (simp add: init_def new_session_def format_py.simps field_value_def plain_field_def
          str_int_def digits10.simps digit_char_def BASEURI_PATTERN_def answering_def
          example_client_def)
  from i client_state_frame [of example_client Map.empty "Delete_note ''2A94M5J1Z''"
      "answering example_reply" "''localhost''" 6080 None BASEURI_PATTERN example_client]
  show ?thesis by simp
qed

end
